theory Spec2Isabelle
  imports Complex_Main "HOL-Library.Monad_Syntax"
begin

section \<open>The lead scorer of \<^verbatim>\<open>src/index.js\<close>\<close>

text \<open>
  The development embeds \<^verbatim>\<open>scoreLead\<close> (lines 163 to 298 of \<^verbatim>\<open>src/index.js\<close>) and the
  helpers it calls: \<^verbatim>\<open>toStr\<close>, \<^verbatim>\<open>lower\<close>, \<^verbatim>\<open>truthy\<close>, \<^verbatim>\<open>clamp\<close>, \<^verbatim>\<open>pick\<close> and \<^verbatim>\<open>yn\<close>
  (lines 50 to 97).

  Conventions of the embedding.
  \<^item> Text is a \<^typ>\<open>string\<close>: the bytes of its UTF-8 encoding (a lone surrogate as
    three bytes, in the same way). The tests the scorer makes on text (empty or not,
    equal to or containing an ASCII word, digits and dots kept) read the same on these
    bytes as on the code units of the JavaScript string.
  \<^item> A computation that can throw returns an \<^typ>\<open>'a option\<close>: \<open>None\<close> is the
    \<^verbatim>\<open>TypeError\<close> of a \<^verbatim>\<open>toString()\<close> call on an object that has no callable
    \<^verbatim>\<open>toString\<close>. Nothing else in \<^verbatim>\<open>scoreLead\<close> can throw.
  \<^item> The score is an \<^typ>\<open>int\<close>: it starts at 50 and only whole constants are added to it.
\<close>

subsection \<open>Text\<close>

definition en_dash :: string where
  "en_dash = [CHR 0xE2, CHR 0x80, CHR 0x93]"

text \<open>
  \<^verbatim>\<open>String.prototype.trim\<close> removes white space and line terminators at both ends
  (ECMA-262, WhiteSpace and LineTerminator): U+0009 to U+000D, U+0020, U+00A0, U+1680,
  U+2000 to U+200A, U+2028, U+2029, U+202F, U+205F, U+3000 and U+FEFF, here by their
  encodings.
\<close>

definition white_space :: "string list" where
  "white_space =
     [[CHR 0x09], [CHR 0x0A], [CHR 0x0B], [CHR 0x0C], [CHR 0x0D], [CHR 0x20],
      [CHR 0xC2, CHR 0xA0],
      [CHR 0xE1, CHR 0x9A, CHR 0x80],
      [CHR 0xE2, CHR 0x80, CHR 0x80], [CHR 0xE2, CHR 0x80, CHR 0x81],
      [CHR 0xE2, CHR 0x80, CHR 0x82], [CHR 0xE2, CHR 0x80, CHR 0x83],
      [CHR 0xE2, CHR 0x80, CHR 0x84], [CHR 0xE2, CHR 0x80, CHR 0x85],
      [CHR 0xE2, CHR 0x80, CHR 0x86], [CHR 0xE2, CHR 0x80, CHR 0x87],
      [CHR 0xE2, CHR 0x80, CHR 0x88], [CHR 0xE2, CHR 0x80, CHR 0x89],
      [CHR 0xE2, CHR 0x80, CHR 0x8A],
      [CHR 0xE2, CHR 0x80, CHR 0xA8], [CHR 0xE2, CHR 0x80, CHR 0xA9],
      [CHR 0xE2, CHR 0x80, CHR 0xAF],
      [CHR 0xE2, CHR 0x81, CHR 0x9F],
      [CHR 0xE3, CHR 0x80, CHR 0x80],
      [CHR 0xEF, CHR 0xBB, CHR 0xBF]]"

text \<open>As long as the text starts with one of the encodings \<open>ws\<close>, that one is dropped.\<close>

function strip_leading :: "string list \<Rightarrow> string \<Rightarrow> string" where
  "strip_leading ws s =
     (case find (\<lambda>w. w \<noteq> [] \<and> take (length w) s = w) ws of
        None \<Rightarrow> s
      | Some w \<Rightarrow> strip_leading ws (drop (length w) s))"
  by pat_completeness auto
termination
proof (relation "measure (\<lambda>(ws, s). length s)")
  show "wf (measure (\<lambda>(ws, s). length s))" by simp
next
  fix ws :: "string list" and s w :: string
  assume "find (\<lambda>w. w \<noteq> [] \<and> take (length w) s = w) ws = Some w"
  then have "w \<noteq> []" and "take (length w) s = w"
    by (auto simp: find_Some_iff)
  then have "s \<noteq> []" by auto
  with \<open>w \<noteq> []\<close> show "((ws, drop (length w) s), (ws, s)) \<in> measure (\<lambda>(ws, s). length s)"
    by simp
qed

declare strip_leading.simps [simp del]

definition trim :: "string \<Rightarrow> string" where
  "trim s = rev (strip_leading (map rev white_space) (rev (strip_leading white_space s)))"

text \<open>
  \<^verbatim>\<open>toLowerCase\<close> and \<^verbatim>\<open>toUpperCase\<close> convert by the Unicode Character Database of the
  runtime (ECMA-262 refers to the Unicode Default Case Conversion). On text that is all
  ASCII this is the conversion of the 26 letters. The database is no part of the
  repository, so on any other text the two conversions are a parameter of the model:
  every property below holds whatever they are.
\<close>

record unicode =
  lower_of :: "string \<Rightarrow> string"
  upper_of :: "string \<Rightarrow> string"

definition is_ascii :: "char \<Rightarrow> bool" where
  "is_ascii c = (\<not> digit7 c)"

definition upper_letters :: string where
  "upper_letters = ''ABCDEFGHIJKLMNOPQRSTUVWXYZ''"

definition lower_letters :: string where
  "lower_letters = ''abcdefghijklmnopqrstuvwxyz''"

definition recase :: "string \<Rightarrow> string \<Rightarrow> char \<Rightarrow> char" where
  "recase from to c = (case map_of (zip from to) c of None \<Rightarrow> c | Some d \<Rightarrow> d)"

definition toLowerCase :: "unicode \<Rightarrow> string \<Rightarrow> string" where
  "toLowerCase U s =
     (if list_all is_ascii s then map (recase upper_letters lower_letters) s else lower_of U s)"

definition toUpperCase :: "unicode \<Rightarrow> string \<Rightarrow> string" where
  "toUpperCase U s =
     (if list_all is_ascii s then map (recase lower_letters upper_letters) s else upper_of U s)"

text \<open>\<^verbatim>\<open>s.includes(t)\<close>: \<open>t\<close> occurs in \<open>s\<close> as a run of consecutive characters.\<close>

fun str_includes :: "string \<Rightarrow> string \<Rightarrow> bool" where
  "str_includes [] t = (t = [])"
| "str_includes (c # cs) t = (take (length t) (c # cs) = t \<or> str_includes cs t)"

text \<open>\<^verbatim>\<open>Array.prototype.join\<close> with a separator.\<close>

fun join :: "string \<Rightarrow> string list \<Rightarrow> string" where
  "join sep [] = []"
| "join sep [x] = x"
| "join sep (x # y # ys) = x @ sep @ join sep (y # ys)"

text \<open>The decimal digits of a natural number.\<close>

fun digits10 :: "nat \<Rightarrow> string" where
  "digits10 n =
     (if n < 10 then [''0123456789'' ! n]
      else digits10 (n div 10) @ [''0123456789'' ! (n mod 10)])"

declare digits10.simps [simp del]

subsection \<open>Values of a lead's fields\<close>

text \<open>
  A Number value, held the way \<^verbatim>\<open>Number.prototype.toString\<close> reads it: the scorer does
  nothing else with a number that a lead carries. \<open>Decimal neg s n\<close> is the finite
  non-zero number of sign \<open>neg\<close> and magnitude \<open>s * 10 ^ (n - k)\<close>, where \<open>s\<close> is the
  shortest digit string that identifies the number and \<open>k\<close> its length (the integers
  \<open>n\<close>, \<open>k\<close>, \<open>s\<close> of ECMA-262, Number::toString).
\<close>

datatype jsnumber = NumNaN | NumInfinity bool | NumZero | Decimal bool nat int

definition Number_toString :: "jsnumber \<Rightarrow> string" where
  "Number_toString x =
     (case x of
        NumNaN \<Rightarrow> ''NaN''
      | NumZero \<Rightarrow> ''0''
      | NumInfinity neg \<Rightarrow> (if neg then ''-'' else '''') @ ''Infinity''
      | Decimal neg s n \<Rightarrow>
          (let ds = digits10 s; k = int (length ds) in
           (if neg then ''-'' else '''') @
           (if - 5 \<le> n \<and> n \<le> 21 then
              (if k \<le> n then ds @ replicate (nat (n - k)) CHR ''0''
               else if 0 < n then take (nat n) ds @ ''.'' @ drop (nat n) ds
               else ''0.'' @ replicate (nat (- n)) CHR ''0'' @ ds)
            else
              (if k = 1 then ds else take 1 ds @ ''.'' @ drop 1 ds) @
              ''e'' @ (if n < 0 then ''-'' else ''+'') @ digits10 (nat \<bar>n - 1\<bar>))))"

text \<open>The number that a finite value stands for.\<close>

definition Number_value :: "jsnumber \<Rightarrow> rat option" where
  "Number_value x =
     (case x of
        NumNaN \<Rightarrow> None
      | NumInfinity neg \<Rightarrow> None
      | NumZero \<Rightarrow> Some 0
      | Decimal neg s n \<Rightarrow>
          (let k = int (length (digits10 s)) in
           Some ((if neg then - 1 else 1) * of_nat s *
                 (if k \<le> n then 10 ^ nat (n - k) else 1 / 10 ^ nat (k - n)))))"

text \<open>
  What a property of the request body can hold. \<open>JUndefined\<close> is what reading an absent
  property gives. \<open>JObject r\<close> is an object or an array, by the outcome \<open>r\<close> of calling
  its \<^verbatim>\<open>toString()\<close>: \<open>Some t\<close> when the call returns the text \<open>t\<close>, \<open>None\<close> when it
  throws (a parsed JSON object with a property named \<^verbatim>\<open>toString\<close>, which is never a
  function). The scorer reads a field's value through \<^verbatim>\<open>toStr\<close> only.
\<close>

datatype jsvalue =
    JUndefined
  | JNull
  | JString string
  | JNumber jsnumber
  | JBoolean bool
  | JObject "string option"

type_synonym lead = "string \<rightharpoonup> jsvalue"

text \<open>\<^verbatim>\<open>obj?.[k]\<close> on the lead.\<close>

definition get_prop :: "lead \<Rightarrow> string \<Rightarrow> jsvalue" where
  "get_prop obj k = (case obj k of None \<Rightarrow> JUndefined | Some v \<Rightarrow> v)"

text \<open>The spec's LeadRecord: every value is a string, a number or a boolean
  (\<^verbatim>\<open>null\<close> is let in as well: the code treats it as absent).\<close>

definition LeadRecord :: "lead \<Rightarrow> bool" where
  "LeadRecord obj = (\<forall>k r. obj k \<noteq> Some (JObject r))"

subsection \<open>The helpers (lines 50 to 97)\<close>

text \<open>\<^verbatim>\<open>(v ?? "").toString().trim()\<close>\<close>

definition toStr :: "jsvalue \<Rightarrow> string option" where
  "toStr v =
     (case v of
        JUndefined \<Rightarrow> Some (trim [])
      | JNull \<Rightarrow> Some (trim [])
      | JString s \<Rightarrow> Some (trim s)
      | JNumber x \<Rightarrow> Some (trim (Number_toString x))
      | JBoolean b \<Rightarrow> Some (trim (if b then ''true'' else ''false''))
      | JObject r \<Rightarrow> map_option trim r)"

definition lower :: "unicode \<Rightarrow> jsvalue \<Rightarrow> string option" where
  "lower U v = do { s \<leftarrow> toStr v; Some (toLowerCase U s) }"

definition truthy :: "unicode \<Rightarrow> jsvalue \<Rightarrow> bool option" where
  "truthy U v = do {
     s \<leftarrow> lower U v;
     Some (s = ''true'' \<or> s = ''yes'' \<or> s = ''1'' \<or> s = ''y'' \<or> s = ''checked'' \<or> s = ''on'')
   }"

definition clamp :: "int \<Rightarrow> int \<Rightarrow> int \<Rightarrow> int" where
  "clamp n mn mx = max mn (min mx n)"

fun pick :: "lead \<Rightarrow> string list \<Rightarrow> jsvalue option" where
  "pick obj [] = Some JUndefined"
| "pick obj (k # ks) =
     (let v = get_prop obj k in
      if v \<noteq> JUndefined \<and> v \<noteq> JNull then
        do { s \<leftarrow> toStr v; if s \<noteq> [] then Some v else pick obj ks }
      else pick obj ks)"

declare pick.simps [simp del]

definition yn :: "unicode \<Rightarrow> jsvalue \<Rightarrow> string option" where
  "yn U v = do {
     s \<leftarrow> lower U v;
     Some (if s \<in> set [''yes'', ''y'', ''true'', ''1'', ''checked'', ''on''] then ''yes''
           else if s \<in> set [''no'', ''n'', ''false'', ''0'', ''off''] then ''no''
           else ''unknown'')
   }"

subsection \<open>Numbers read from text\<close>

text \<open>
  A Number as the comparisons of the scorer see it: its exact value, or one of the two
  values that have none. Only values that are not negative arise, since the text handed
  to \<^verbatim>\<open>Number\<close> has no sign.
\<close>

datatype double = NaN | Infinity | Finite rat

definition Number_isNaN :: "double \<Rightarrow> bool" where
  "Number_isNaN d = (d = NaN)"

text \<open>\<^verbatim>\<open>d > c\<close>, \<^verbatim>\<open>d >= c\<close> and \<^verbatim>\<open>d <= c\<close> for a finite constant \<open>c\<close>: false on \<^verbatim>\<open>NaN\<close>.\<close>

definition js_gt :: "double \<Rightarrow> rat \<Rightarrow> bool" where
  "js_gt d c = (case d of NaN \<Rightarrow> False | Infinity \<Rightarrow> True | Finite x \<Rightarrow> c < x)"

definition js_ge :: "double \<Rightarrow> rat \<Rightarrow> bool" where
  "js_ge d c = (case d of NaN \<Rightarrow> False | Infinity \<Rightarrow> True | Finite x \<Rightarrow> c \<le> x)"

definition js_le :: "double \<Rightarrow> rat \<Rightarrow> bool" where
  "js_le d c = (case d of NaN \<Rightarrow> False | Infinity \<Rightarrow> False | Finite x \<Rightarrow> x \<le> c)"

definition js_lt :: "double \<Rightarrow> rat \<Rightarrow> bool" where
  "js_lt d c = (case d of NaN \<Rightarrow> False | Infinity \<Rightarrow> False | Finite x \<Rightarrow> x < c)"

text \<open>\<^verbatim>\<open>s.replace(/[^0-9.]/g, "")\<close>\<close>

definition strip_non_numeric :: "string \<Rightarrow> string" where
  "strip_non_numeric s = filter (\<lambda>c. c \<in> set ''0123456789.'') s"

definition is_digit :: "char \<Rightarrow> bool" where
  "is_digit c = (c \<in> set ''0123456789'')"

definition digit_val :: "char \<Rightarrow> nat" where
  "digit_val c = (case map_of (zip ''0123456789'' [0, 1, 2, 3, 4, 5, 6, 7, 8, 9]) c of None \<Rightarrow> 0 | Some d \<Rightarrow> d)"

definition digits_val :: "string \<Rightarrow> nat" where
  "digits_val ds = foldl (\<lambda>a c. 10 * a + digit_val c) 0 ds"

text \<open>
  The decimal \<open>m / 10 ^ k\<close> as a binary64 value, rounded to nearest, ties to even
  (IEEE 754), in whole-number arithmetic. \<open>e\<close> is the binary exponent of the exact
  value, \<open>2 ^ e \<le> m / 10 ^ k < 2 ^ (e + 1)\<close>; \<open>x\<close> is the exponent of the spacing of
  the binary64 values there, with \<open>e\<close> held at the least normal exponent in the
  subnormal range; \<open>n\<close> is the exact value in units of \<open>2 ^ x\<close>, rounded. A result of
  \<open>2 ^ 1024\<close> or more overflows to \<^verbatim>\<open>Infinity\<close>.
\<close>

fun bit_length :: "nat \<Rightarrow> nat" where
  "bit_length n = (if n = 0 then 0 else Suc (bit_length (n div 2)))"

declare bit_length.simps [simp del]

definition pow2 :: "int \<Rightarrow> rat" where
  "pow2 e = (if 0 \<le> e then 2 ^ nat e else 1 / 2 ^ nat (- e))"

definition round_div_half_even :: "nat \<Rightarrow> nat \<Rightarrow> nat" where
  "round_div_half_even a b =
     (let f = a div b; r = a mod b in
      if 2 * r < b then f else if b < 2 * r then f + 1 else if even f then f else f + 1)"

definition to_double :: "nat \<Rightarrow> nat \<Rightarrow> double" where
  "to_double m k =
     (if m = 0 then Finite 0
      else
        let e0 = int (bit_length m) - int (bit_length (10 ^ k));
            e = (if 2 ^ nat e0 * 10 ^ k \<le> m * 2 ^ nat (- e0) then e0 else e0 - 1);
            x = max e (- 1022) - 52;
            n = round_div_half_even (m * 2 ^ nat (- x)) (10 ^ k * 2 ^ nat x);
            r = of_nat n * pow2 x
        in if pow2 1024 \<le> r then Infinity else Finite r)"

text \<open>
  \<^verbatim>\<open>Number(s)\<close> on the text that reaches it, which holds digits and dots only: the empty
  text is 0; digits with at most one dot, and a digit somewhere, are a decimal literal;
  anything else is \<^verbatim>\<open>NaN\<close>. (Signs, exponents, other radices and \<^verbatim>\<open>Infinity\<close> need a
  character that \<^verbatim>\<open>strip_non_numeric\<close> has removed.)
\<close>

definition Number_of :: "string \<Rightarrow> double" where
  "Number_of s =
     (let ip = takeWhile (\<lambda>c. c \<noteq> CHR ''.'') s;
          fp = drop 1 (dropWhile (\<lambda>c. c \<noteq> CHR ''.'') s)
      in if s = [] then Finite 0
         else if \<not> list_all is_digit (ip @ fp) then NaN
         else if ip = [] \<and> fp = [] then NaN
         else to_double (digits_val (ip @ fp)) (length fp))"

text \<open>\<^verbatim>\<open>Math.round\<close> on a whole number.\<close>

definition Math_round :: "int \<Rightarrow> int" where
  "Math_round n = n"

subsection \<open>The scorer (lines 163 to 298)\<close>

text \<open>The two switches, as the environment holds them (\<^verbatim>\<open>"false"\<close> when unset).\<close>

record GateConfig =
  REQUIRE_CA :: string
  REQUIRE_KERN :: string

record ScoreResult =
  score :: int
  tier :: string
  lead_temperature :: string
  reject_reasons :: "string list"
  score_reasons :: string
  marshall_eligible :: bool

text \<open>Lines 171 and 172: \<^verbatim>\<open>state\<close> and \<^verbatim>\<open>county\<close>.\<close>

definition state_field :: "unicode \<Rightarrow> lead \<Rightarrow> string option" where
  "state_field U lead = do {
     v \<leftarrow> pick lead [''State'', ''state''];
     s \<leftarrow> toStr v;
     Some (toUpperCase U s)
   }"

definition county_field :: "unicode \<Rightarrow> lead \<Rightarrow> string option" where
  "county_field U lead = do {
     v \<leftarrow> pick lead [''County'', ''county''];
     lower U v
   }"

text \<open>Lines 167 to 179: the reject reasons the two geo gates push.\<close>

definition geo_gates :: "unicode \<Rightarrow> GateConfig \<Rightarrow> lead \<Rightarrow> string list option" where
  "geo_gates U cfg lead = do {
     requireCA \<leftarrow> truthy U (JString (REQUIRE_CA cfg));
     requireKern \<leftarrow> truthy U (JString (REQUIRE_KERN cfg));
     state \<leftarrow> state_field U lead;
     county \<leftarrow> county_field U lead;
     Some ((if requireCA \<and> state \<noteq> [] \<and> state \<noteq> ''CA'' \<and> state \<noteq> ''CALIFORNIA''
            then [''Outside California''] else []) @
           (if requireKern \<and> county \<noteq> [] \<and> \<not> str_includes county ''kern''
            then [''Outside Kern County''] else []))
   }"

text \<open>Lines 192 and 193.\<close>

definition ownership :: "unicode \<Rightarrow> lead \<Rightarrow> string option" where
  "ownership U lead = do {
     ownsRaw \<leftarrow> pick lead [''Owns property?'', ''owns_property'', ''owns'', ''own'', ''homeowner''];
     yn U ownsRaw
   }"

text \<open>
  Each of the six blocks that follow adds a constant to \<^verbatim>\<open>score\<close> and pushes at most one
  text on \<^verbatim>\<open>reasons\<close>; its model returns the amount added and the texts pushed.
  Lines 213 to 225.
\<close>

definition billRaw :: "lead \<Rightarrow> string option" where
  "billRaw lead = do {
     v \<leftarrow> pick lead [''Avg monthly bill'', ''avg_monthly_bill'', ''bill''];
     toStr v
   }"

definition billNum :: "lead \<Rightarrow> double option" where
  "billNum lead = do { raw \<leftarrow> billRaw lead; Some (Number_of (strip_non_numeric raw)) }"

definition bill_signal :: "unicode \<Rightarrow> lead \<Rightarrow> (int \<times> string list) option" where
  "bill_signal U lead = do {
     raw \<leftarrow> billRaw lead;
     num \<leftarrow> billNum lead;
     if \<not> Number_isNaN num \<and> js_gt num 0 then
       Some (if js_ge num 250 then (18, [''High bill''])
             else if js_ge num 150 then (10, [''Mid bill''])
             else (2, [''Low bill'']))
     else do {
       b \<leftarrow> lower U (JString raw);
       Some (if str_includes b ''250'' then (18, [''High bill''])
             else if str_includes b ''150'' then (10, [''Mid bill''])
             else if b \<noteq> [] then (4, [''Bill provided''])
             else (0, [''Bill unknown'']))
     }
   }"

text \<open>Lines 228 to 239.\<close>

definition roof_signal :: "unicode \<Rightarrow> lead \<Rightarrow> (int \<times> string list) option" where
  "roof_signal U lead = do {
     v \<leftarrow> pick lead [''Roof age (years)'', ''roof_age_years'', ''roof_age''];
     roofAgeRaw \<leftarrow> toStr v;
     let roofAgeNum = Number_of (strip_non_numeric roofAgeRaw);
     if \<not> Number_isNaN roofAgeNum \<and> js_gt roofAgeNum 0 then
       Some (if js_le roofAgeNum 10 then (12, [''Roof <= 10 years''])
             else if js_le roofAgeNum 20 then (6, [''Roof 10'' @ en_dash @ ''20 years''])
             else (0, [''Roof > 20 years'']))
     else do {
       r \<leftarrow> lower U (JString roofAgeRaw);
       Some (if str_includes r ''under'' \<or> str_includes r ''<'' \<or> str_includes r ''10''
             then (12, [''Roof likely good''])
             else if str_includes r ''20'' then (6, [''Roof maybe''])
             else (0, [''Roof unknown'']))
     }
   }"

text \<open>Lines 242 to 251.\<close>

definition sun_signal :: "unicode \<Rightarrow> lead \<Rightarrow> (int \<times> string list) option" where
  "sun_signal U lead = do {
     v \<leftarrow> pick lead [''Sun exposure'', ''sun_exposure''];
     sun \<leftarrow> lower U v;
     Some (if str_includes sun ''full'' \<or> str_includes sun ''great'' \<or> str_includes sun ''high''
           then (10, [''Good sun exposure''])
           else if str_includes sun ''partial'' \<or> str_includes sun ''medium''
           then (5, [''Medium sun exposure''])
           else if sun \<noteq> [] then (0, [''Low/unknown sun exposure''])
           else (0, [''Sun exposure unknown'']))
   }"

text \<open>Lines 254 to 258.\<close>

definition hoa_signal :: "unicode \<Rightarrow> lead \<Rightarrow> (int \<times> string list) option" where
  "hoa_signal U lead = do {
     hoaRaw \<leftarrow> pick lead [''HOA?'', ''hoa'', ''has_hoa''];
     hoa \<leftarrow> yn U hoaRaw;
     Some (if hoa = ''yes'' then (- 8, [''HOA friction''])
           else if hoa = ''no'' then (4, [''No HOA''])
           else (- 2, [''HOA unknown'']))
   }"

text \<open>Lines 261 to 270.\<close>

definition trueup_signal :: "unicode \<Rightarrow> lead \<Rightarrow> (int \<times> string list) option" where
  "trueup_signal U lead = do {
     v \<leftarrow> pick lead [''Annual true-up cost'', ''true_up'', ''trueup''];
     trueUpRaw \<leftarrow> toStr v;
     let trueUpNum = Number_of (strip_non_numeric trueUpRaw);
     trueUpTxt \<leftarrow> lower U (JString trueUpRaw);
     Some (if \<not> Number_isNaN trueUpNum \<and> js_gt trueUpNum 0 then
             (if js_ge trueUpNum 500 then (6, [''High true-up cost''])
              else (2, [''True-up cost indicated'']))
           else if str_includes trueUpTxt ''yes'' \<or> str_includes trueUpTxt ''true''
           then (4, [''True-up indicated''])
           else (0, []))
   }"

text \<open>Lines 273 to 276.\<close>

definition ptype_signal :: "unicode \<Rightarrow> lead \<Rightarrow> (int \<times> string list) option" where
  "ptype_signal U lead = do {
     v \<leftarrow> pick lead [''Property type'', ''property_type''];
     ptype \<leftarrow> lower U v;
     Some (if str_includes ptype ''single'' then (4, [''Single family''])
           else if str_includes ptype ''mobile'' \<or> str_includes ptype ''manufact''
           then (- 6, [''Mobile/manufactured complexity''])
           else if ptype \<noteq> [] then (0, [''Property type noted''])
           else (0, []))
   }"

text \<open>The texts the six blocks push on \<^verbatim>\<open>reasons\<close>, in the order of the blocks.\<close>

definition signal_reasons :: "unicode \<Rightarrow> lead \<Rightarrow> string list option" where
  "signal_reasons U lead = do {
     (d_bill, r_bill) \<leftarrow> bill_signal U lead;
     (d_roof, r_roof) \<leftarrow> roof_signal U lead;
     (d_sun, r_sun) \<leftarrow> sun_signal U lead;
     (d_hoa, r_hoa) \<leftarrow> hoa_signal U lead;
     (d_trueup, r_trueup) \<leftarrow> trueup_signal U lead;
     (d_ptype, r_ptype) \<leftarrow> ptype_signal U lead;
     Some (r_bill @ r_roof @ r_sun @ r_hoa @ r_trueup @ r_ptype)
   }"

text \<open>Lines 282 to 288: tier, temperature and eligibility of a clamped score.\<close>

definition tiering :: "int \<Rightarrow> string \<times> string \<times> bool" where
  "tiering n =
     (if 75 \<le> n then (''Qualified '' @ en_dash @ '' Send to Marshall'', ''Hot'', True)
      else if 55 \<le> n then (''Warm '' @ en_dash @ '' Review Later'', ''Warm'', False)
      else (''Educational Only'', ''Cold'', False))"

definition scoreLead :: "unicode \<Rightarrow> GateConfig \<Rightarrow> lead \<Rightarrow> ScoreResult option" where
  "scoreLead U cfg lead = do {
     rejectReasons \<leftarrow> geo_gates U cfg lead;
     if rejectReasons \<noteq> [] then
       Some \<lparr>score = 0, tier = ''Disqualified'', lead_temperature = ''Cold'',
             reject_reasons = rejectReasons,
             score_reasons = join '' | '' rejectReasons,
             marshall_eligible = False\<rparr>
     else do {
       owns \<leftarrow> ownership U lead;
       if owns \<noteq> ''yes'' then
         Some \<lparr>score = 0, tier = ''Disqualified'', lead_temperature = ''Cold'',
               reject_reasons = rejectReasons @ [''Not homeowner''],
               score_reasons = ''Not homeowner'',
               marshall_eligible = False\<rparr>
       else do {
         (d_bill, r_bill) \<leftarrow> bill_signal U lead;
         (d_roof, r_roof) \<leftarrow> roof_signal U lead;
         (d_sun, r_sun) \<leftarrow> sun_signal U lead;
         (d_hoa, r_hoa) \<leftarrow> hoa_signal U lead;
         (d_trueup, r_trueup) \<leftarrow> trueup_signal U lead;
         (d_ptype, r_ptype) \<leftarrow> ptype_signal U lead;
         let reasons = [''Homeowner''] @ r_bill @ r_roof @ r_sun @ r_hoa @ r_trueup @ r_ptype;
         let total = clamp (Math_round (50 + d_bill + d_roof + d_sun + d_hoa + d_trueup + d_ptype)) 0 100;
         let (label, temp, eligible) = tiering total;
         Some \<lparr>score = total, tier = label, lead_temperature = temp,
               reject_reasons = rejectReasons,
               score_reasons = join '' | '' reasons,
               marshall_eligible = eligible\<rparr>
       }
     }
   }"

subsection \<open>Configurations and leads used as examples\<close>

text \<open>Both switches unset (lines 27 and 28 give them the text \<^verbatim>\<open>"false"\<close>), and both set.\<close>

definition gates_off :: GateConfig where
  "gates_off = \<lparr>REQUIRE_CA = ''false'', REQUIRE_KERN = ''false''\<rparr>"

definition gates_on :: GateConfig where
  "gates_on = \<lparr>REQUIRE_CA = ''true'', REQUIRE_KERN = ''true''\<rparr>"

definition owner_only :: lead where
  "owner_only = [''owns'' \<mapsto> JString ''yes'']"

definition not_owner :: lead where
  "not_owner = [''owns'' \<mapsto> JString ''no'']"

definition scenario_B :: lead where
  "scenario_B =
     [''owns'' \<mapsto> JString ''yes'',
      ''Avg monthly bill'' \<mapsto> JString ''300'',
      ''Roof age (years)'' \<mapsto> JString ''5'',
      ''Sun exposure'' \<mapsto> JString ''full sun'',
      ''HOA?'' \<mapsto> JString ''no'',
      ''Property type'' \<mapsto> JString ''single family'']"

definition nevada_tenant :: lead where
  "nevada_tenant = [''State'' \<mapsto> JString ''NV'', ''owns'' \<mapsto> JString ''no'']"

definition los_angeles_owner :: lead where
  "los_angeles_owner = [''County'' \<mapsto> JString ''Los Angeles'', ''owns'' \<mapsto> JString ''yes'']"

definition low_bill_owner :: lead where
  "low_bill_owner = [''owns'' \<mapsto> JString ''yes'', ''bill'' \<mapsto> JNumber (Decimal False 12 3)]"

definition high_bill_owner :: lead where
  "high_bill_owner = [''owns'' \<mapsto> JString ''yes'', ''bill'' \<mapsto> JString ''$300'']"

definition out_of_area_owner :: lead where
  "out_of_area_owner =
     [''owns'' \<mapsto> JString ''yes'', ''State'' \<mapsto> JString ''NV'',
      ''County'' \<mapsto> JString ''Los Angeles'']"

text \<open>An owner with every signal at its least.\<close>

definition worst_case_owner :: lead where
  "worst_case_owner =
     [''owns'' \<mapsto> JString ''yes'', ''hoa'' \<mapsto> JBoolean True,
      ''property_type'' \<mapsto> JString ''Mobile home'']"

text \<open>A body whose \<^verbatim>\<open>State\<close> is an object that cannot be turned into text.\<close>

definition object_state :: lead where
  "object_state = [''owns'' \<mapsto> JString ''yes'', ''State'' \<mapsto> JObject None]"

text \<open>
  Case tables for the examples that follow. Where the text of an example is ASCII they are
  not consulted, and the evaluations hold for every table.
\<close>

definition ascii_tables :: unicode where
  "ascii_tables = \<lparr>lower_of = (\<lambda>s. s), upper_of = (\<lambda>s. s)\<rparr>"

text \<open>The no-break space U+00A0 and the Kelvin sign U+212A.\<close>

definition nbsp :: string where
  "nbsp = [CHR 0xC2, CHR 0xA0]"

definition kelvin_sign :: string where
  "kelvin_sign = [CHR 0xE2, CHR 0x84, CHR 0xAA]"

definition nbsp_owner :: lead where
  "nbsp_owner = [''owns'' \<mapsto> JString (nbsp @ ''yes'')]"

definition nbsp_state :: lead where
  "nbsp_state = [''owns'' \<mapsto> JString ''yes'', ''State'' \<mapsto> JString nbsp]"

definition kelvin_county :: lead where
  "kelvin_county = [''owns'' \<mapsto> JString ''yes'', ''County'' \<mapsto> JString (kelvin_sign @ ''ern'')]"

text \<open>Owners whose bill is the number \<^verbatim>\<open>3e-10\<close>, and the number \<^verbatim>\<open>1e21\<close>.\<close>

definition tiny_bill_owner :: lead where
  "tiny_bill_owner = [''owns'' \<mapsto> JString ''yes'', ''bill'' \<mapsto> JNumber (Decimal False 3 (- 9))]"

definition huge_bill_owner :: lead where
  "huge_bill_owner = [''owns'' \<mapsto> JString ''yes'', ''bill'' \<mapsto> JNumber (Decimal False 1 22)]"

section \<open>Properties\<close>

subsection \<open>Evaluation\<close>

text \<open>The equation of \<^const>\<open>strip_leading\<close>, for text that is given.\<close>

lemma strip_leading_Nil: "strip_leading ws [] = []"
proof -
  have "find (\<lambda>w. w \<noteq> [] \<and> take (length w) [] = w) ws = None"
    by (auto simp: find_None_iff)
  then show ?thesis by (simp add: strip_leading.simps)
qed

lemma strip_leading_Cons:
  "strip_leading ws (c # cs) =
     (case find (\<lambda>w. w \<noteq> [] \<and> take (length w) (c # cs) = w) ws of
        None \<Rightarrow> c # cs
      | Some w \<Rightarrow> strip_leading ws (drop (length w) (c # cs)))"
  by (rule strip_leading.simps)

lemmas text_eval =
  trim_def white_space_def strip_leading_Nil strip_leading_Cons is_ascii_def toLowerCase_def
  toUpperCase_def
  recase_def upper_letters_def lower_letters_def en_dash_def

lemmas number_eval =
  Number_of_def to_double_def is_digit_def digits_val_def digit_val_def pow2_def
  round_div_half_even_def bit_length.simps strip_non_numeric_def Number_isNaN_def
  js_gt_def js_ge_def js_le_def js_lt_def Let_def

lemmas helper_eval =
  pick.simps get_prop_def toStr_def lower_def truthy_def yn_def clamp_def Math_round_def

lemmas scorer_eval =
  state_field_def county_field_def geo_gates_def ownership_def billRaw_def billNum_def
  bill_signal_def roof_signal_def sun_signal_def hoa_signal_def trueup_signal_def
  ptype_signal_def tiering_def scoreLead_def signal_reasons_def

lemmas example_defs =
  gates_off_def gates_on_def owner_only_def not_owner_def scenario_B_def nevada_tenant_def
  los_angeles_owner_def low_bill_owner_def high_bill_owner_def worst_case_owner_def
  out_of_area_owner_def object_state_def nbsp_def kelvin_sign_def nbsp_owner_def nbsp_state_def
  kelvin_county_def tiny_bill_owner_def huge_bill_owner_def

subsection \<open>The helpers return on primitive values\<close>

lemma get_prop_LeadRecord: "LeadRecord obj \<Longrightarrow> get_prop obj k \<noteq> JObject r"
  by (auto simp: LeadRecord_def get_prop_def split: option.splits)

lemma toStr_total: "\<forall>r. v \<noteq> JObject r \<Longrightarrow> \<exists>s. toStr v = Some s"
  by (cases v) (simp_all add: toStr_def)

lemma lower_total: "\<forall>r. v \<noteq> JObject r \<Longrightarrow> \<exists>s. lower U v = Some s"
  using toStr_total [of v] by (auto simp: lower_def)

lemma yn_total: "\<forall>r. v \<noteq> JObject r \<Longrightarrow> \<exists>s. yn U v = Some s"
  using lower_total [of v U] by (auto simp: yn_def)

lemma truthy_JString: "\<exists>b. truthy U (JString s) = Some b"
  by (simp add: truthy_def lower_def toStr_def)

lemma lower_JString: "lower U (JString s) = Some (toLowerCase U (trim s))"
  by (simp add: lower_def toStr_def)

lemma pick_total: "LeadRecord obj \<Longrightarrow> \<exists>v. pick obj ks = Some v \<and> (\<forall>r. v \<noteq> JObject r)"
proof (induction ks)
  case Nil
  then show ?case by (simp add: pick.simps)
next
  case (Cons k ks)
  have "\<forall>r. get_prop obj k \<noteq> JObject r"
    using Cons.prems by (simp add: get_prop_LeadRecord)
  then obtain s where "toStr (get_prop obj k) = Some s"
    using toStr_total by blast
  with Cons \<open>\<forall>r. get_prop obj k \<noteq> JObject r\<close> show ?case
    by (auto simp: Let_def pick.simps)
qed

lemma pick_cong_keys: "\<forall>k \<in> set ks. l1 k = l2 k \<Longrightarrow> pick l1 ks = pick l2 ks"
proof (induction ks)
  case Nil
  show ?case by (simp add: pick.simps)
next
  case (Cons k ks)
  then have tl: "pick l1 ks = pick l2 ks" and hd: "get_prop l1 k = get_prop l2 k"
    by (simp_all add: get_prop_def)
  show ?case unfolding pick.simps tl hd ..
qed

lemma pick_toStr_total: "LeadRecord lead \<Longrightarrow> \<exists>v s. pick lead ks = Some v \<and> toStr v = Some s"
  using pick_total [of lead ks] toStr_total by blast

lemma pick_lower_total: "LeadRecord lead \<Longrightarrow> \<exists>v s. pick lead ks = Some v \<and> lower U v = Some s"
  using pick_total [of lead ks] lower_total by blast

lemma pick_yn_total: "LeadRecord lead \<Longrightarrow> \<exists>v s. pick lead ks = Some v \<and> yn U v = Some s"
  using pick_total [of lead ks] yn_total by blast

subsection \<open>The blocks of the scorer: they return, and what they add\<close>

lemma billRaw_total: "LeadRecord lead \<Longrightarrow> \<exists>s. billRaw lead = Some s"
  using pick_toStr_total [of lead "[''Avg monthly bill'', ''avg_monthly_bill'', ''bill'']"]
  by (auto simp: billRaw_def)

lemma bill_signal_total: "LeadRecord lead \<Longrightarrow> \<exists>d rs. bill_signal U lead = Some (d, rs)"
  using billRaw_total [of lead]
  by (auto simp: bill_signal_def billNum_def lower_JString)

lemma bill_signal_range: "bill_signal U lead = Some (d, rs) \<Longrightarrow> 0 \<le> d \<and> d \<le> 18"
  by (auto simp: bill_signal_def lower_JString split: bind_splits if_splits)

lemma bill_signal_high:
  "billNum lead = Some num \<Longrightarrow> js_ge num 250 \<Longrightarrow> bill_signal U lead = Some (d, rs) \<Longrightarrow> d = 18"
  by (cases num) (auto simp: bill_signal_def billNum_def js_ge_def js_gt_def Number_isNaN_def
      split: bind_splits if_splits)

lemma roof_signal_total: "LeadRecord lead \<Longrightarrow> \<exists>d rs. roof_signal U lead = Some (d, rs)"
  using pick_toStr_total [of lead "[''Roof age (years)'', ''roof_age_years'', ''roof_age'']"]
  by (auto simp: roof_signal_def lower_JString Let_def)

lemma roof_signal_range: "roof_signal U lead = Some (d, rs) \<Longrightarrow> 0 \<le> d \<and> d \<le> 12"
  by (auto simp: roof_signal_def lower_JString Let_def split: bind_splits if_splits)

lemma sun_signal_total: "LeadRecord lead \<Longrightarrow> \<exists>d rs. sun_signal U lead = Some (d, rs)"
  using pick_lower_total [of lead "[''Sun exposure'', ''sun_exposure'']" U]
  by (auto simp: sun_signal_def)

lemma sun_signal_range: "sun_signal U lead = Some (d, rs) \<Longrightarrow> 0 \<le> d \<and> d \<le> 10"
  by (auto simp: sun_signal_def split: bind_splits if_splits)

lemma hoa_signal_total: "LeadRecord lead \<Longrightarrow> \<exists>d rs. hoa_signal U lead = Some (d, rs)"
  using pick_yn_total [of lead "[''HOA?'', ''hoa'', ''has_hoa'']" U]
  by (auto simp: hoa_signal_def)

lemma hoa_signal_range: "hoa_signal U lead = Some (d, rs) \<Longrightarrow> - 8 \<le> d \<and> d \<le> 4"
  by (auto simp: hoa_signal_def split: bind_splits if_splits)

lemma trueup_signal_total: "LeadRecord lead \<Longrightarrow> \<exists>d rs. trueup_signal U lead = Some (d, rs)"
  using pick_toStr_total [of lead "[''Annual true-up cost'', ''true_up'', ''trueup'']"]
  by (auto simp: trueup_signal_def lower_JString Let_def)

lemma trueup_signal_range: "trueup_signal U lead = Some (d, rs) \<Longrightarrow> 0 \<le> d \<and> d \<le> 6"
  by (auto simp: trueup_signal_def lower_JString Let_def split: bind_splits if_splits)

lemma ptype_signal_total: "LeadRecord lead \<Longrightarrow> \<exists>d rs. ptype_signal U lead = Some (d, rs)"
  using pick_lower_total [of lead "[''Property type'', ''property_type'']" U]
  by (auto simp: ptype_signal_def)

lemma ptype_signal_range: "ptype_signal U lead = Some (d, rs) \<Longrightarrow> - 6 \<le> d \<and> d \<le> 4"
  by (auto simp: ptype_signal_def split: bind_splits if_splits)

lemma ownership_total: "LeadRecord lead \<Longrightarrow> \<exists>s. ownership U lead = Some s"
  using pick_yn_total [of lead "[''Owns property?'', ''owns_property'', ''owns'', ''own'', ''homeowner'']" U]
  by (auto simp: ownership_def)

lemma state_field_total: "LeadRecord lead \<Longrightarrow> \<exists>s. state_field U lead = Some s"
  using pick_toStr_total [of lead "[''State'', ''state'']"]
  by (auto simp: state_field_def)

lemma county_field_total: "LeadRecord lead \<Longrightarrow> \<exists>s. county_field U lead = Some s"
  using pick_lower_total [of lead "[''County'', ''county'']" U]
  by (auto simp: county_field_def)

lemma geo_gates_total: "LeadRecord lead \<Longrightarrow> \<exists>rj. geo_gates U cfg lead = Some rj"
  using truthy_JString [of U "REQUIRE_CA cfg"] truthy_JString [of U "REQUIRE_KERN cfg"]
    state_field_total [of lead U] county_field_total [of lead U]
  by (auto simp: geo_gates_def)

subsection \<open>The three ways out of the scorer\<close>

lemma scoreLead_cases:
  assumes "LeadRecord lead"
  obtains
    (geo) rj where "geo_gates U cfg lead = Some rj" and "rj \<noteq> []"
      and "scoreLead U cfg lead =
        Some \<lparr>score = 0, tier = ''Disqualified'', lead_temperature = ''Cold'',
              reject_reasons = rj, score_reasons = join '' | '' rj, marshall_eligible = False\<rparr>"
  | (not_owner) own where "geo_gates U cfg lead = Some []" and "ownership U lead = Some own"
      and "own \<noteq> ''yes''"
      and "scoreLead U cfg lead =
        Some \<lparr>score = 0, tier = ''Disqualified'', lead_temperature = ''Cold'',
              reject_reasons = [''Not homeowner''], score_reasons = ''Not homeowner'',
              marshall_eligible = False\<rparr>"
  | (scored) d1 r1 d2 r2 d3 r3 d4 r4 d5 r5 d6 r6 where
      "geo_gates U cfg lead = Some []" and "ownership U lead = Some ''yes''"
      and "bill_signal U lead = Some (d1, r1)" and "roof_signal U lead = Some (d2, r2)"
      and "sun_signal U lead = Some (d3, r3)" and "hoa_signal U lead = Some (d4, r4)"
      and "trueup_signal U lead = Some (d5, r5)" and "ptype_signal U lead = Some (d6, r6)"
      and "scoreLead U cfg lead =
        Some \<lparr>score = clamp (50 + d1 + d2 + d3 + d4 + d5 + d6) 0 100,
              tier = fst (tiering (clamp (50 + d1 + d2 + d3 + d4 + d5 + d6) 0 100)),
              lead_temperature = fst (snd (tiering (clamp (50 + d1 + d2 + d3 + d4 + d5 + d6) 0 100))),
              reject_reasons = [],
              score_reasons = join '' | '' ([''Homeowner''] @ r1 @ r2 @ r3 @ r4 @ r5 @ r6),
              marshall_eligible = snd (snd (tiering (clamp (50 + d1 + d2 + d3 + d4 + d5 + d6) 0 100)))\<rparr>"
proof -
  obtain rj where rj: "geo_gates U cfg lead = Some rj"
    using geo_gates_total [OF assms] by blast
  obtain own where own: "ownership U lead = Some own"
    using ownership_total [OF assms] by blast
  obtain d1 r1 where s1: "bill_signal U lead = Some (d1, r1)"
    using bill_signal_total [OF assms] by blast
  obtain d2 r2 where s2: "roof_signal U lead = Some (d2, r2)"
    using roof_signal_total [OF assms] by blast
  obtain d3 r3 where s3: "sun_signal U lead = Some (d3, r3)"
    using sun_signal_total [OF assms] by blast
  obtain d4 r4 where s4: "hoa_signal U lead = Some (d4, r4)"
    using hoa_signal_total [OF assms] by blast
  obtain d5 r5 where s5: "trueup_signal U lead = Some (d5, r5)"
    using trueup_signal_total [OF assms] by blast
  obtain d6 r6 where s6: "ptype_signal U lead = Some (d6, r6)"
    using ptype_signal_total [OF assms] by blast
  show thesis
  proof (cases "rj = []")
    case False
    with rj show thesis
      by (intro geo [of rj]) (simp_all add: scoreLead_def)
  next
    case True
    show thesis
    proof (cases "own = ''yes''")
      case False
      with rj True own show thesis
        by (intro not_owner [of own]) (simp_all add: scoreLead_def)
    next
      case yes: True
      with rj True own s1 s2 s3 s4 s5 s6 show thesis
        by (intro scored [of d1 r1 d2 r2 d3 r3 d4 r4 d5 r5 d6 r6])
          (simp_all add: scoreLead_def Math_round_def Let_def case_prod_beta)
    qed
  qed
qed

subsection \<open>Clamping, tiers and the example leads\<close>

lemma clamp_range: "0 \<le> clamp n 0 100 \<and> clamp n 0 100 \<le> 100"
  by (simp add: clamp_def)

lemma clamp_mono: "a \<le> b \<Longrightarrow> clamp a 0 100 \<le> clamp b 0 100"
  by (simp add: clamp_def)

lemma clamp_floor: "36 \<le> n \<Longrightarrow> 36 \<le> clamp n 0 100"
  by (simp add: clamp_def)

lemma tiering_not_disqualified: "fst (tiering n) \<noteq> ''Disqualified''"
  by (simp add: tiering_def en_dash_def)

lemma tiering_eligible:
  "snd (snd (tiering n)) = (fst (tiering n) = ''Qualified '' @ en_dash @ '' Send to Marshall'')"
  by (simp add: tiering_def en_dash_def)

lemma tiering_cutoff: "snd (snd (tiering n)) = (75 \<le> n)"
  by (simp add: tiering_def)

lemma tiering_labels:
  "fst (tiering n) \<in> set [''Qualified '' @ en_dash @ '' Send to Marshall'',
     ''Warm '' @ en_dash @ '' Review Later'', ''Educational Only'']"
  "fst (snd (tiering n)) \<in> set [''Hot'', ''Warm'', ''Cold'']"
  by (simp_all add: tiering_def)

lemma LeadRecord_examples:
  "LeadRecord Map.empty" "LeadRecord owner_only" "LeadRecord not_owner" "LeadRecord scenario_B"
  "LeadRecord nevada_tenant" "LeadRecord los_angeles_owner" "LeadRecord low_bill_owner"
  "LeadRecord high_bill_owner"
  by (simp_all add: LeadRecord_def example_defs)

lemma owner_only_result:
  "scoreLead U gates_off owner_only =
     Some \<lparr>score = 48, tier = ''Educational Only'', lead_temperature = ''Cold'',
           reject_reasons = [],
           score_reasons = ''Homeowner | Bill unknown | Roof unknown | Sun exposure unknown | HOA unknown'',
           marshall_eligible = False\<rparr>"
  by (simp add: gates_off_def owner_only_def scorer_eval helper_eval number_eval text_eval)

lemma not_owner_result:
  "scoreLead U gates_on not_owner =
     Some \<lparr>score = 0, tier = ''Disqualified'', lead_temperature = ''Cold'',
           reject_reasons = [''Not homeowner''], score_reasons = ''Not homeowner'',
           marshall_eligible = False\<rparr>"
  by (simp add: gates_on_def not_owner_def scorer_eval helper_eval number_eval text_eval)

lemma worst_case_owner_result:
  "scoreLead U gates_on worst_case_owner =
     Some \<lparr>score = 36, tier = ''Educational Only'', lead_temperature = ''Cold'',
           reject_reasons = [],
           score_reasons = ''Homeowner | Bill unknown | Roof unknown | Sun exposure unknown | HOA friction | Mobile/manufactured complexity'',
           marshall_eligible = False\<rparr>"
  by (simp add: gates_on_def worst_case_owner_def scorer_eval helper_eval number_eval text_eval)

lemma worst_case_owner_passes:
  "LeadRecord worst_case_owner" "geo_gates U gates_on worst_case_owner = Some []"
  "ownership U worst_case_owner = Some ''yes''"
  by (simp_all add: LeadRecord_def gates_on_def worst_case_owner_def scorer_eval helper_eval text_eval)

lemma signals_sum_range:
  assumes "bill_signal U lead = Some (d1, r1)" and "roof_signal U lead = Some (d2, r2)"
    and "sun_signal U lead = Some (d3, r3)" and "hoa_signal U lead = Some (d4, r4)"
    and "trueup_signal U lead = Some (d5, r5)" and "ptype_signal U lead = Some (d6, r6)"
  shows "36 \<le> 50 + d1 + d2 + d3 + d4 + d5 + d6" and "50 + d1 + d2 + d3 + d4 + d5 + d6 \<le> 104"
proof -
  note ranges = bill_signal_range [OF assms(1)] roof_signal_range [OF assms(2)]
    sun_signal_range [OF assms(3)] hoa_signal_range [OF assms(4)]
    trueup_signal_range [OF assms(5)] ptype_signal_range [OF assms(6)]
  from ranges show "36 \<le> 50 + d1 + d2 + d3 + d4 + d5 + d6"
    and "50 + d1 + d2 + d3 + d4 + d5 + d6 \<le> 104"
    by linarith+
qed

subsection \<open>The geo gates\<close>

lemma geo_gates_off:
  assumes "truthy U (JString (REQUIRE_CA cfg)) = Some False"
    and "truthy U (JString (REQUIRE_KERN cfg)) = Some False"
    and "geo_gates U cfg lead = Some rj"
  shows "rj = []"
  using assms by (auto simp: geo_gates_def split: bind_splits)

lemma geo_gates_reasons:
  assumes "geo_gates U cfg lead = Some rj"
  shows "\<exists>s c. state_field U lead = Some s \<and> county_field U lead = Some c \<and>
    (''Outside California'' \<in> set rj \<longrightarrow>
       truthy U (JString (REQUIRE_CA cfg)) = Some True \<and> s \<noteq> []) \<and>
    (''Outside Kern County'' \<in> set rj \<longrightarrow>
       truthy U (JString (REQUIRE_KERN cfg)) = Some True \<and> c \<noteq> [])"
  using assms by (auto simp: geo_gates_def split: bind_splits if_splits)

lemma geo_gates_kern:
  assumes "truthy U (JString (REQUIRE_KERN cfg)) = Some True"
    and "county_field U lead = Some c" and "c \<noteq> []" and "\<not> str_includes c ''kern''"
    and "geo_gates U cfg lead = Some rj"
  shows "''Outside Kern County'' \<in> set rj"
  using assms by (auto simp: geo_gates_def split: bind_splits)


subsection \<open>What the blocks push\<close>

lemma bill_signal_pushes: "bill_signal U lead = Some (d, rs) \<Longrightarrow> length rs = 1"
  by (auto simp: bill_signal_def lower_JString split: bind_splits if_splits)

lemma roof_signal_pushes: "roof_signal U lead = Some (d, rs) \<Longrightarrow> length rs = 1"
  by (auto simp: roof_signal_def lower_JString Let_def split: bind_splits if_splits)

lemma sun_signal_pushes: "sun_signal U lead = Some (d, rs) \<Longrightarrow> length rs = 1"
  by (auto simp: sun_signal_def split: bind_splits if_splits)

lemma hoa_signal_pushes: "hoa_signal U lead = Some (d, rs) \<Longrightarrow> length rs = 1"
  by (auto simp: hoa_signal_def split: bind_splits if_splits)

lemma trueup_signal_pushes: "trueup_signal U lead = Some (d, rs) \<Longrightarrow> length rs \<le> 1"
  by (auto simp: trueup_signal_def lower_JString Let_def split: bind_splits if_splits)

lemma ptype_signal_pushes: "ptype_signal U lead = Some (d, rs) \<Longrightarrow> length rs \<le> 1"
  by (auto simp: ptype_signal_def split: bind_splits if_splits)

lemma scenario_B_result:
  "scoreLead U gates_off scenario_B =
     Some \<lparr>score = 98, tier = ''Qualified '' @ en_dash @ '' Send to Marshall'',
           lead_temperature = ''Hot'', reject_reasons = [],
           score_reasons = ''Homeowner | High bill | Roof <= 10 years | Good sun exposure | No HOA | Single family'',
           marshall_eligible = True\<rparr>"
  by (simp add: gates_off_def scenario_B_def scorer_eval helper_eval number_eval text_eval)

subsection \<open>Leads that the scorer cannot tell apart\<close>

lemma scoreLead_same_gates:
  assumes "geo_gates U cfg l1 = geo_gates U cfg' l2" and "ownership U l1 = ownership U l2"
    and "bill_signal U l1 = bill_signal U l2" and "roof_signal U l1 = roof_signal U l2"
    and "sun_signal U l1 = sun_signal U l2" and "hoa_signal U l1 = hoa_signal U l2"
    and "trueup_signal U l1 = trueup_signal U l2" and "ptype_signal U l1 = ptype_signal U l2"
  shows "scoreLead U cfg l1 = scoreLead U cfg' l2"
  unfolding scoreLead_def assms ..

lemma gates_examples:
  "truthy U (JString (REQUIRE_CA gates_off)) = Some False"
  "truthy U (JString (REQUIRE_KERN gates_off)) = Some False"
  "truthy U (JString (REQUIRE_CA gates_on)) = Some True"
  "truthy U (JString (REQUIRE_KERN gates_on)) = Some True"
  by (simp_all add: gates_off_def gates_on_def helper_eval text_eval)

lemma agree_pick:
  assumes "\<forall>k. k \<notin> K \<longrightarrow> l1 k = l2 k" and "set ks \<inter> K = {}"
  shows "pick l1 ks = pick l2 ks"
  using assms by (intro pick_cong_keys) auto

subsection \<open>More evaluations\<close>

lemma strip_non_numeric_chars: "set (strip_non_numeric s) \<subseteq> set ''0123456789.''"
  by (auto simp: strip_non_numeric_def)

text \<open>Decimal text is rounded to binary64 before it is compared: twenty nines after
  \<open>249.\<close> are 250.\<close>

lemma Number_of_examples:
  "Number_of (strip_non_numeric ''$300 / month'') = Finite 300"
  "Number_of (strip_non_numeric ''about 249.99999999999999999999'') = Finite 250"
  "Number_of (strip_non_numeric ''0.1'') = Finite (3602879701896397 / 36028797018963968)"
  "Number_of (strip_non_numeric ''n/a'') = Finite 0"
  "Number_of (strip_non_numeric ''1.2.3'') = NaN"
  "Number_of (strip_non_numeric ''...'') = NaN"
  by (simp_all add: number_eval)

lemma Number_toString_examples:
  "Number_toString (Decimal False 12 3) = ''120''"
  "Number_toString (Decimal True 2495 3) = ''-249.5''"
  "Number_toString (Decimal False 15 22) = ''1.5e+21''"
  by code_simp+

lemma low_bill_owner_result:
  "billNum low_bill_owner = Some (Finite 120)"
  "map_option score (scoreLead U gates_off low_bill_owner) = Some 50"
  by (simp_all add: gates_off_def low_bill_owner_def scorer_eval helper_eval number_eval text_eval
      Number_toString_examples)

lemma high_bill_owner_result:
  "billNum high_bill_owner = Some (Finite 300)"
  "map_option score (scoreLead U gates_off high_bill_owner) = Some 66"
  by (simp_all add: gates_off_def high_bill_owner_def scorer_eval helper_eval number_eval text_eval)

lemma out_of_area_owner_result:
  "scoreLead U gates_on out_of_area_owner =
     Some \<lparr>score = 0, tier = ''Disqualified'', lead_temperature = ''Cold'',
           reject_reasons = [''Outside California'', ''Outside Kern County''],
           score_reasons = ''Outside California | Outside Kern County'',
           marshall_eligible = False\<rparr>"
  "state_field U out_of_area_owner = Some ''NV''"
  "county_field U out_of_area_owner = Some ''los angeles''"
  by (simp_all add: gates_on_def out_of_area_owner_def scorer_eval helper_eval text_eval)

lemma empty_lead_result:
  "ownership U Map.empty = Some ''unknown''"
  by (simp add: ownership_def helper_eval text_eval)

text \<open>
  Numbers that print with an exponent: the scorer keeps the digits of the exponent.
\<close>

lemma exponent_bill_examples:
  "Number_value (Decimal False 3 (- 9)) = Some (3 / 10 ^ 10)"
  "Number_value (Decimal False 1 22) = Some (10 ^ 21)"
  "billRaw tiny_bill_owner = Some ''3e-10''"
  "billRaw huge_bill_owner = Some ''1e+21''"
  "billNum tiny_bill_owner = Some (Finite 310)"
  "billNum huge_bill_owner = Some (Finite 121)"
  "map_option score (scoreLead U gates_off tiny_bill_owner) = Some 66"
  "map_option score (scoreLead U gates_off huge_bill_owner) = Some 50"
  by (simp_all add: gates_off_def tiny_bill_owner_def huge_bill_owner_def scorer_eval helper_eval
      number_eval text_eval Number_value_def Number_toString_def digits10.simps)

lemma exponent_bill_leads:
  "LeadRecord tiny_bill_owner" "LeadRecord huge_bill_owner"
  "tiny_bill_owner(''bill'' := None) = huge_bill_owner(''bill'' := None)"
  by (simp_all add: LeadRecord_def tiny_bill_owner_def huge_bill_owner_def)

text \<open>
  Text outside ASCII. A no-break space is trimmed: a no-break space followed by
  \<^verbatim>\<open>yes\<close> is an owner, and a state that is one no-break space is empty. Where the tables
  of the runtime turn the Kelvin sign into \<^verbatim>\<open>k\<close>, the county written as the Kelvin sign
  followed by \<^verbatim>\<open>ern\<close> passes the county gate.
\<close>

lemma no_break_space_examples:
  "ownership U nbsp_owner = Some ''yes''"
  "map_option score (scoreLead U gates_on nbsp_owner) = Some 48"
  "state_field U nbsp_state = Some []"
  "geo_gates U gates_on nbsp_state = Some []"
  by (simp_all add: gates_on_def nbsp_def nbsp_owner_def nbsp_state_def scorer_eval helper_eval
      number_eval text_eval)

lemma kelvin_sign_example:
  assumes "lower_of U (kelvin_sign @ ''ern'') = ''kern''"
  shows "county_field U kelvin_county = Some ''kern''"
    and "geo_gates U gates_on kelvin_county = Some []"
proof -
  have "toLowerCase U (kelvin_sign @ ''ern'') = ''kern''"
    using assms by (simp add: toLowerCase_def is_ascii_def kelvin_sign_def)
  moreover have "trim (kelvin_sign @ ''ern'') = kelvin_sign @ ''ern''"
    by (simp add: kelvin_sign_def text_eval)
  ultimately show c: "county_field U kelvin_county = Some ''kern''"
    by (simp add: kelvin_county_def county_field_def pick.simps get_prop_def toStr_def lower_def)
  have "state_field U kelvin_county = Some []"
    by (simp add: kelvin_county_def kelvin_sign_def state_field_def helper_eval text_eval)
  with c show "geo_gates U gates_on kelvin_county = Some []"
    by (simp add: geo_gates_def gates_examples)
qed

text \<open>Outside the LeadRecords the scorer can throw.\<close>

lemma scoreLead_throws:
  "\<not> LeadRecord object_state" "scoreLead U cfg object_state = None"
proof -
  have "object_state ''State'' = Some (JObject None)"
    by (simp add: object_state_def)
  then show "\<not> LeadRecord object_state"
    unfolding LeadRecord_def by blast
  have "state_field U object_state = None"
    by (simp add: object_state_def state_field_def pick.simps get_prop_def toStr_def)
  then have "geo_gates U cfg object_state = None"
    using truthy_JString [of U "REQUIRE_CA cfg"] truthy_JString [of U "REQUIRE_KERN cfg"]
    by (auto simp: geo_gates_def)
  then show "scoreLead U cfg object_state = None"
    by (simp add: scoreLead_def)
qed

section \<open>The claims\<close>

text \<open>
  C4. For every LeadRecord and every GateConfig the scorer returns, and the score of the
  result is a whole number between 0 and 100, both included. (The score is clamped after
  \<^verbatim>\<open>Math.round\<close>: see \<^const>\<open>scoreLead\<close>.)
\<close>

theorem score_in_range:
  assumes "LeadRecord lead"
  shows "\<exists>r. scoreLead U cfg lead = Some r \<and> 0 \<le> score r \<and> score r \<le> 100"
  using assms
proof (cases rule: scoreLead_cases [of lead U cfg])
  case (geo rj)
  then show ?thesis by simp
next
  case (not_owner own)
  then show ?thesis by simp
next
  case (scored d1 r1 d2 r2 d3 r3 d4 r4 d5 r5 d6 r6)
  then show ?thesis by (simp add: clamp_range)
qed

theorem score_in_range_witness:
  "LeadRecord owner_only \<and>
   (\<exists>r. scoreLead ascii_tables gates_off owner_only = Some r \<and> 0 \<le> score r \<and> score r \<le> 100)"
  using score_in_range [of owner_only ascii_tables gates_off] LeadRecord_examples(2) by simp

text \<open>
  C10. A LeadRecord that passes the geo gates and the ownership gate scores at least 36:
  the base is 50 and only the HOA block (at most 8) and the property type block (6) take
  from it. A result with no reject reason never has a score from 0 to 35, and a score of
  0 comes with the tier \<^verbatim>\<open>Disqualified\<close> and a reject reason.
\<close>

theorem score_floor:
  assumes "LeadRecord lead"
  shows "\<exists>r. scoreLead U cfg lead = Some r \<and>
    (geo_gates U cfg lead = Some [] \<and> ownership U lead = Some ''yes'' \<longrightarrow>
       reject_reasons r = [] \<and> 36 \<le> score r) \<and>
    (reject_reasons r = [] \<longrightarrow> 36 \<le> score r) \<and>
    (score r = 0 \<longrightarrow> tier r = ''Disqualified'' \<and> reject_reasons r \<noteq> [])"
  using assms
proof (cases rule: scoreLead_cases [of lead U cfg])
  case (geo rj)
  then show ?thesis by simp
next
  case (not_owner own)
  then show ?thesis by simp
next
  case (scored d1 r1 d2 r2 d3 r3 d4 r4 d5 r5 d6 r6)
  then have "36 \<le> clamp (50 + d1 + d2 + d3 + d4 + d5 + d6) 0 100"
    by (intro clamp_floor signals_sum_range)
  with scored show ?thesis by simp
qed

theorem score_floor_witness:
  "LeadRecord worst_case_owner \<and> geo_gates ascii_tables gates_on worst_case_owner = Some [] \<and>
   ownership ascii_tables worst_case_owner = Some ''yes'' \<and>
   (\<exists>r. scoreLead ascii_tables gates_on worst_case_owner = Some r \<and> reject_reasons r = [] \<and> score r = 36) \<and>
   LeadRecord not_owner \<and>
   (\<exists>r. scoreLead ascii_tables gates_on not_owner = Some r \<and> score r = 0 \<and> tier r = ''Disqualified'' \<and>
        reject_reasons r \<noteq> [])"
  using score_floor [of worst_case_owner ascii_tables gates_on] score_floor [of not_owner ascii_tables gates_on]
    worst_case_owner_passes worst_case_owner_result not_owner_result LeadRecord_examples(3)
  by simp

text \<open>
  C1, as the code has it. The claim makes \<^verbatim>\<open>marshall_eligible == false\<close> equivalent to
  disqualification; an owner with no other field scores 48, is not disqualified and is
  not eligible.
\<close>

theorem result_invariant_counterexample:
  "map_option reject_reasons (scoreLead ascii_tables gates_off owner_only) = Some [] \<and>
   map_option marshall_eligible (scoreLead ascii_tables gates_off owner_only) = Some False \<and>
   map_option score (scoreLead ascii_tables gates_off owner_only) = Some 48 \<and>
   map_option tier (scoreLead ascii_tables gates_off owner_only) = Some ''Educational Only''"
  by (simp add: owner_only_result)

text \<open>
  C1, amended. For every LeadRecord and GateConfig the result has a reject reason if and
  only if its score is 0, if and only if its tier is \<^verbatim>\<open>Disqualified\<close>; a disqualified
  result is not eligible, but not conversely: a result is eligible exactly when its
  score is 75 or more, which is exactly when its tier is the top one.
\<close>

theorem result_invariant:
  assumes "LeadRecord lead"
  shows "\<exists>r. scoreLead U cfg lead = Some r \<and>
    ((reject_reasons r \<noteq> []) = (score r = 0)) \<and>
    ((score r = 0) = (tier r = ''Disqualified'')) \<and>
    (tier r = ''Disqualified'' \<longrightarrow> \<not> marshall_eligible r) \<and>
    (marshall_eligible r = (75 \<le> score r)) \<and>
    (marshall_eligible r = (tier r = ''Qualified '' @ en_dash @ '' Send to Marshall''))"
  using assms
proof (cases rule: scoreLead_cases [of lead U cfg])
  case (geo rj)
  then show ?thesis by simp
next
  case (not_owner own)
  then show ?thesis by simp
next
  case (scored d1 r1 d2 r2 d3 r3 d4 r4 d5 r5 d6 r6)
  then have "36 \<le> clamp (50 + d1 + d2 + d3 + d4 + d5 + d6) 0 100"
    by (intro clamp_floor signals_sum_range)
  with scored show ?thesis
    using tiering_eligible [of "clamp (50 + d1 + d2 + d3 + d4 + d5 + d6) 0 100"]
    by (simp add: tiering_not_disqualified tiering_cutoff)
qed

theorem result_invariant_witness:
  "LeadRecord not_owner \<and>
   (\<exists>r. scoreLead ascii_tables gates_on not_owner = Some r \<and> reject_reasons r \<noteq> [] \<and>
        score r = 0 \<and> tier r = ''Disqualified'' \<and> \<not> marshall_eligible r) \<and>
   LeadRecord owner_only \<and>
   (\<exists>r. scoreLead ascii_tables gates_off owner_only = Some r \<and> reject_reasons r = [] \<and>
        score r = 48 \<and> tier r \<noteq> ''Disqualified'' \<and> \<not> marshall_eligible r) \<and>
   LeadRecord scenario_B \<and>
   (\<exists>r. scoreLead ascii_tables gates_off scenario_B = Some r \<and> score r = 98 \<and>
        tier r = ''Qualified '' @ en_dash @ '' Send to Marshall'' \<and> marshall_eligible r)"
  using result_invariant [of not_owner ascii_tables gates_on]
    result_invariant [of owner_only ascii_tables gates_off]
    result_invariant [of scenario_B ascii_tables gates_off]
    not_owner_result [of ascii_tables] owner_only_result [of ascii_tables]
    scenario_B_result [of ascii_tables] LeadRecord_examples(2,3,4)
  by simp

text \<open>
  C2, as the code has it. The claim gives the reject reasons \<^verbatim>\<open>["Not homeowner"]\<close> for
  every GateConfig; with the state gate on, a tenant in Nevada is rejected by the geo gate,
  which returns before the ownership gate is reached.
\<close>

theorem not_owner_counterexample:
  "ownership ascii_tables nevada_tenant = Some ''no'' \<and>
   map_option reject_reasons (scoreLead ascii_tables gates_on nevada_tenant) = Some [''Outside California'']"
  by (simp add: gates_on_def nevada_tenant_def scorer_eval helper_eval text_eval)

text \<open>
  C2, amended. For every LeadRecord whose ownership resolves to anything other than
  \<^verbatim>\<open>yes\<close>, and every GateConfig, the score is 0, the tier \<^verbatim>\<open>Disqualified\<close> and the lead
  not eligible; the reject reasons are \<^verbatim>\<open>["Not homeowner"]\<close> when no geo gate rejects
  the lead, as is the case when both gates are disabled, and the reasons of the geo
  gates otherwise.
\<close>

theorem not_owner_disqualified:
  assumes "LeadRecord lead" and "ownership U lead \<noteq> Some ''yes''"
  shows "\<exists>r rj. scoreLead U cfg lead = Some r \<and> geo_gates U cfg lead = Some rj \<and>
    score r = 0 \<and> tier r = ''Disqualified'' \<and> \<not> marshall_eligible r \<and>
    reject_reasons r = (if rj = [] then [''Not homeowner''] else rj) \<and>
    (truthy U (JString (REQUIRE_CA cfg)) = Some False \<and>
     truthy U (JString (REQUIRE_KERN cfg)) = Some False \<longrightarrow>
       reject_reasons r = [''Not homeowner''])"
  using assms(1)
proof (cases rule: scoreLead_cases [of lead U cfg])
  case (geo rj)
  then show ?thesis using geo_gates_off [of U cfg lead rj] by auto
next
  case (not_owner own)
  then show ?thesis by simp
next
  case (scored d1 r1 d2 r2 d3 r3 d4 r4 d5 r5 d6 r6)
  with assms(2) show ?thesis by simp
qed

theorem not_owner_disqualified_witness:
  "LeadRecord not_owner \<and> ownership ascii_tables not_owner \<noteq> Some ''yes'' \<and>
   truthy ascii_tables (JString (REQUIRE_CA gates_off)) = Some False \<and>
   truthy ascii_tables (JString (REQUIRE_KERN gates_off)) = Some False \<and>
   (\<exists>r. scoreLead ascii_tables gates_off not_owner = Some r \<and> score r = 0 \<and> tier r = ''Disqualified'' \<and>
        \<not> marshall_eligible r \<and> reject_reasons r = [''Not homeowner''])"
proof -
  have "ownership ascii_tables not_owner \<noteq> Some ''yes''"
    by (simp add: not_owner_def ownership_def helper_eval text_eval)
  moreover have "truthy ascii_tables (JString (REQUIRE_CA gates_off)) = Some False"
    "truthy ascii_tables (JString (REQUIRE_KERN gates_off)) = Some False"
    by (simp_all add: gates_off_def helper_eval text_eval)
  ultimately show ?thesis
    using not_owner_disqualified [of not_owner ascii_tables gates_off] LeadRecord_examples(3) by auto
qed

text \<open>
  C3, as the code has it. The claim lets nothing but the reasons of the six blocks into
  \<^verbatim>\<open>score_reasons\<close>; line 207 pushes \<^verbatim>\<open>"Homeowner"\<close> before them.
\<close>

theorem score_reasons_counterexample:
  "signal_reasons ascii_tables owner_only =
     Some [''Bill unknown'', ''Roof unknown'', ''Sun exposure unknown'', ''HOA unknown''] \<and>
   map_option score_reasons (scoreLead ascii_tables gates_off owner_only) =
     Some ''Homeowner | Bill unknown | Roof unknown | Sun exposure unknown | HOA unknown'' \<and>
   map_option score_reasons (scoreLead ascii_tables gates_off owner_only) \<noteq>
     Some (join '' | '' [''Bill unknown'', ''Roof unknown'', ''Sun exposure unknown'', ''HOA unknown''])"
proof -
  have "signal_reasons ascii_tables owner_only =
     Some [''Bill unknown'', ''Roof unknown'', ''Sun exposure unknown'', ''HOA unknown'']"
    by (simp add: owner_only_def scorer_eval helper_eval number_eval text_eval)
  then show ?thesis by (simp add: owner_only_result)
qed

text \<open>
  C3, amended. For every LeadRecord that is not disqualified, \<^verbatim>\<open>score_reasons\<close> is
  \<^verbatim>\<open>"Homeowner"\<close> followed by the reasons the six blocks push (bill, roof age, sun
  exposure, HOA, true-up, property type: between four and six of them), in that order,
  joined by \<^verbatim>\<open>" | "\<close>.
\<close>

theorem score_reasons_joined:
  assumes "LeadRecord lead"
  shows "\<exists>r. scoreLead U cfg lead = Some r \<and>
    (tier r \<noteq> ''Disqualified'' \<longrightarrow>
      (\<exists>rs. signal_reasons U lead = Some rs \<and> 4 \<le> length rs \<and> length rs \<le> 6 \<and>
         score_reasons r = join '' | '' (''Homeowner'' # rs)))"
  using assms
proof (cases rule: scoreLead_cases [of lead U cfg])
  case (geo rj)
  then show ?thesis by simp
next
  case (not_owner own)
  then show ?thesis by simp
next
  case (scored d1 r1 d2 r2 d3 r3 d4 r4 d5 r5 d6 r6)
  have "length r1 = 1" "length r2 = 1" "length r3 = 1" "length r4 = 1" "length r5 \<le> 1"
    "length r6 \<le> 1"
    using bill_signal_pushes [OF scored(3)] roof_signal_pushes [OF scored(4)]
      sun_signal_pushes [OF scored(5)] hoa_signal_pushes [OF scored(6)]
      trueup_signal_pushes [OF scored(7)] ptype_signal_pushes [OF scored(8)] by simp_all
  moreover have "signal_reasons U lead = Some (r1 @ r2 @ r3 @ r4 @ r5 @ r6)"
    using scored by (simp add: signal_reasons_def)
  ultimately show ?thesis using scored by simp
qed

theorem score_reasons_joined_witness:
  "LeadRecord scenario_B \<and>
   (\<exists>r. scoreLead ascii_tables gates_off scenario_B = Some r \<and> tier r \<noteq> ''Disqualified'' \<and>
     (\<exists>rs. signal_reasons ascii_tables scenario_B = Some rs \<and>
        score_reasons r = join '' | '' (''Homeowner'' # rs)))"
  using score_reasons_joined [of scenario_B ascii_tables gates_off] scenario_B_result LeadRecord_examples(4)
  by (auto simp: en_dash_def)

text \<open>
  C5. With the county gate enabled, a LeadRecord whose county is not empty and, in lower
  case, does not contain \<^verbatim>\<open>kern\<close> gets the reject reason \<^verbatim>\<open>"Outside Kern County"\<close> and
  the score 0, whatever its other fields hold, ownership included.
\<close>

theorem kern_gate_rejects:
  assumes "LeadRecord lead" and "truthy U (JString (REQUIRE_KERN cfg)) = Some True"
    and "county_field U lead = Some c" and "c \<noteq> []" and "\<not> str_includes c ''kern''"
  shows "\<exists>r. scoreLead U cfg lead = Some r \<and> ''Outside Kern County'' \<in> set (reject_reasons r) \<and>
    score r = 0"
  using assms(1)
proof (cases rule: scoreLead_cases [of lead U cfg])
  case (geo rj)
  then show ?thesis using geo_gates_kern [OF assms(2-5)] by simp
next
  case (not_owner own)
  then show ?thesis using geo_gates_kern [OF assms(2-5)] by simp
next
  case (scored d1 r1 d2 r2 d3 r3 d4 r4 d5 r5 d6 r6)
  then show ?thesis using geo_gates_kern [OF assms(2-5)] by simp
qed

theorem kern_gate_rejects_witness:
  "LeadRecord los_angeles_owner \<and> truthy ascii_tables (JString (REQUIRE_KERN gates_on)) = Some True \<and>
   county_field ascii_tables los_angeles_owner = Some ''los angeles'' \<and> ''los angeles'' \<noteq> [] \<and>
   \<not> str_includes ''los angeles'' ''kern'' \<and> ownership ascii_tables los_angeles_owner = Some ''yes'' \<and>
   (\<exists>r. scoreLead ascii_tables gates_on los_angeles_owner = Some r \<and>
        ''Outside Kern County'' \<in> set (reject_reasons r) \<and> score r = 0)"
proof -
  have c: "county_field ascii_tables los_angeles_owner = Some ''los angeles''"
    by (simp add: los_angeles_owner_def county_field_def helper_eval text_eval)
  have o: "ownership ascii_tables los_angeles_owner = Some ''yes''"
    by (simp add: los_angeles_owner_def ownership_def helper_eval text_eval)
  have n: "\<not> str_includes ''los angeles'' ''kern''"
    by simp
  show ?thesis
    using kern_gate_rejects [OF LeadRecord_examples(6) gates_examples(4) c _ n] c o n
      LeadRecord_examples(6) gates_examples(4)
    by simp
qed

text \<open>
  C6. With both geo gates disabled, the record of scenario B scores 98, that is
  50 + 18 (bill) + 12 (roof) + 10 (sun) + 4 (HOA) + 0 (true-up) + 4 (property type), with
  the top tier, the temperature \<^verbatim>\<open>Hot\<close> and eligibility.
\<close>

theorem scenario_B_score:
  assumes "truthy U (JString (REQUIRE_CA cfg)) = Some False"
    and "truthy U (JString (REQUIRE_KERN cfg)) = Some False"
  shows "scoreLead U cfg scenario_B =
     Some \<lparr>score = 98, tier = ''Qualified '' @ en_dash @ '' Send to Marshall'',
           lead_temperature = ''Hot'', reject_reasons = [],
           score_reasons = ''Homeowner | High bill | Roof <= 10 years | Good sun exposure | No HOA | Single family'',
           marshall_eligible = True\<rparr> \<and>
     map_option fst (bill_signal U scenario_B) = Some 18 \<and>
     map_option fst (roof_signal U scenario_B) = Some 12 \<and>
     map_option fst (sun_signal U scenario_B) = Some 10 \<and>
     map_option fst (hoa_signal U scenario_B) = Some 4 \<and>
     map_option fst (trueup_signal U scenario_B) = Some 0 \<and>
     map_option fst (ptype_signal U scenario_B) = Some 4"
proof -
  obtain rj where rj: "geo_gates U cfg scenario_B = Some rj"
    using geo_gates_total [OF LeadRecord_examples(4)] by blast
  then have "geo_gates U cfg scenario_B = Some []"
    using geo_gates_off [OF assms] by blast
  moreover have "geo_gates U gates_off scenario_B = Some []"
    by (simp add: gates_off_def scenario_B_def scorer_eval helper_eval text_eval)
  ultimately have "scoreLead U cfg scenario_B = scoreLead U gates_off scenario_B"
    by (intro scoreLead_same_gates) simp_all
  moreover have "map_option fst (bill_signal U scenario_B) = Some 18"
    "map_option fst (roof_signal U scenario_B) = Some 12"
    "map_option fst (sun_signal U scenario_B) = Some 10"
    "map_option fst (hoa_signal U scenario_B) = Some 4"
    "map_option fst (trueup_signal U scenario_B) = Some 0"
    "map_option fst (ptype_signal U scenario_B) = Some 4"
    by (simp_all add: scenario_B_def scorer_eval helper_eval number_eval text_eval)
  ultimately show ?thesis by (simp add: scenario_B_result)
qed

theorem scenario_B_score_witness:
  "truthy ascii_tables (JString (REQUIRE_CA gates_off)) = Some False \<and>
   truthy ascii_tables (JString (REQUIRE_KERN gates_off)) = Some False \<and>
   map_option score (scoreLead ascii_tables gates_off scenario_B) = Some 98 \<and>
   map_option marshall_eligible (scoreLead ascii_tables gates_off scenario_B) = Some True \<and>
   map_option lead_temperature (scoreLead ascii_tables gates_off scenario_B) = Some ''Hot''"
  using scenario_B_score [OF gates_examples(1,2)] gates_examples(1,2) by simp

text \<open>
  C7, as the code has it. The claim is about the values of the bill field. Two owners
  that differ in the bill only: the bill \<^verbatim>\<open>3e-10\<close>, below 150, prints as \<^verbatim>\<open>"3e-10"\<close>, of
  which the scorer keeps \<^verbatim>\<open>"310"\<close>, and scores 66; the bill \<^verbatim>\<open>1e21\<close>, above 250, prints
  as \<^verbatim>\<open>"1e+21"\<close>, of which it keeps \<^verbatim>\<open>"121"\<close>, and scores 50.
\<close>

theorem bill_monotone_counterexample:
  "LeadRecord tiny_bill_owner \<and> LeadRecord huge_bill_owner \<and>
   tiny_bill_owner(''bill'' := None) = huge_bill_owner(''bill'' := None) \<and>
   tiny_bill_owner ''bill'' = Some (JNumber (Decimal False 3 (- 9))) \<and>
   huge_bill_owner ''bill'' = Some (JNumber (Decimal False 1 22)) \<and>
   Number_value (Decimal False 3 (- 9)) = Some (3 / 10 ^ 10) \<and>
   Number_value (Decimal False 1 22) = Some (10 ^ 21) \<and>
   map_option score (scoreLead ascii_tables gates_off tiny_bill_owner) = Some 66 \<and>
   map_option score (scoreLead ascii_tables gates_off huge_bill_owner) = Some 50"
  using exponent_bill_examples(1,2) exponent_bill_examples(7,8) [of ascii_tables]
    exponent_bill_leads
  by (simp add: tiny_bill_owner_def huge_bill_owner_def)

text \<open>
  C7, amended. The bill is taken as the number that the scorer reads from the text of the
  bill field, which is the text with everything but digits and dots removed. Two
  LeadRecords that differ in the three bill keys only, the first with a bill so read
  above 0 and below 150, the second with one of 250 or more: under every GateConfig the
  second scores at least what the first scores.
\<close>

theorem bill_monotone:
  assumes "LeadRecord l1" and "LeadRecord l2"
    and "\<forall>k. k \<notin> {''Avg monthly bill'', ''avg_monthly_bill'', ''bill''} \<longrightarrow> l1 k = l2 k"
    and "billNum l1 = Some n1" and "js_gt n1 0" and "js_lt n1 150"
    and "billNum l2 = Some n2" and "js_ge n2 250"
  shows "\<exists>r1 r2. scoreLead U cfg l1 = Some r1 \<and> scoreLead U cfg l2 = Some r2 \<and> score r1 \<le> score r2"
proof -
  have p: "pick l1 ks = pick l2 ks"
    if "set ks \<inter> {''Avg monthly bill'', ''avg_monthly_bill'', ''bill''} = {}" for ks
    using agree_pick [OF assms(3) that] .
  have same: "geo_gates U cfg l1 = geo_gates U cfg l2" "ownership U l1 = ownership U l2"
    "roof_signal U l1 = roof_signal U l2" "sun_signal U l1 = sun_signal U l2"
    "hoa_signal U l1 = hoa_signal U l2" "trueup_signal U l1 = trueup_signal U l2"
    "ptype_signal U l1 = ptype_signal U l2"
    by (simp_all add: geo_gates_def state_field_def county_field_def ownership_def
        roof_signal_def sun_signal_def hoa_signal_def trueup_signal_def ptype_signal_def p)
  show ?thesis
    using assms(1)
  proof (cases rule: scoreLead_cases [of l1 U cfg])
    case (geo rj)
    then show ?thesis using same by (simp add: scoreLead_def)
  next
    case (not_owner own)
    then show ?thesis using same by (simp add: scoreLead_def)
  next
    case (scored d1 r1 d2 r2 d3 r3 d4 r4 d5 r5 d6 r6)
    obtain e1 q1 where b2: "bill_signal U l2 = Some (e1, q1)"
      using bill_signal_total [OF assms(2)] by blast
    then have "e1 = 18"
      using bill_signal_high [OF assms(7,8)] by blast
    moreover have "d1 \<le> 18"
      using bill_signal_range [OF scored(3)] by simp
    ultimately have "clamp (50 + d1 + d2 + d3 + d4 + d5 + d6) 0 100
        \<le> clamp (50 + e1 + d2 + d3 + d4 + d5 + d6) 0 100"
      by (intro clamp_mono) simp
    moreover have "map_option score (scoreLead U cfg l2) =
        Some (clamp (50 + e1 + d2 + d3 + d4 + d5 + d6) 0 100)"
      using scored same b2 by (simp add: scoreLead_def Math_round_def Let_def case_prod_beta)
    ultimately show ?thesis using scored by auto
  qed
qed

theorem bill_monotone_witness:
  "LeadRecord low_bill_owner \<and> LeadRecord high_bill_owner \<and>
   (\<forall>k. (k = ''Avg monthly bill'' \<or> k = ''avg_monthly_bill'' \<or> k = ''bill'') \<or>
        low_bill_owner k = high_bill_owner k) \<and>
   billNum low_bill_owner = Some (Finite 120) \<and> js_gt (Finite 120) 0 \<and> js_lt (Finite 120) 150 \<and>
   billNum high_bill_owner = Some (Finite 300) \<and> js_ge (Finite 300) 250 \<and>
   (\<exists>r1 r2. scoreLead ascii_tables gates_off low_bill_owner = Some r1 \<and>
      scoreLead ascii_tables gates_off high_bill_owner = Some r2 \<and> score r1 = 50 \<and> score r2 = 66)"
proof -
  have agree: "\<forall>k. (k = ''Avg monthly bill'' \<or> k = ''avg_monthly_bill'' \<or> k = ''bill'') \<or>
      low_bill_owner k = high_bill_owner k"
    by (simp add: low_bill_owner_def high_bill_owner_def)
  then have agree': "\<forall>k. k \<notin> {''Avg monthly bill'', ''avg_monthly_bill'', ''bill''} \<longrightarrow>
      low_bill_owner k = high_bill_owner k"
    by blast
  have cmp: "js_gt (Finite 120) 0" "js_lt (Finite 120) 150" "js_ge (Finite 300) 250"
    by (simp_all add: js_gt_def js_lt_def js_ge_def)
  have "\<exists>r1 r2. scoreLead ascii_tables gates_off low_bill_owner = Some r1 \<and>
      scoreLead ascii_tables gates_off high_bill_owner = Some r2 \<and> score r1 \<le> score r2"
    using bill_monotone [OF LeadRecord_examples(7,8) agree' low_bill_owner_result(1) cmp(1,2)
        high_bill_owner_result(1) cmp(3), of ascii_tables gates_off] .
  then have "\<exists>r1 r2. scoreLead ascii_tables gates_off low_bill_owner = Some r1 \<and>
      scoreLead ascii_tables gates_off high_bill_owner = Some r2 \<and> score r1 = 50 \<and> score r2 = 66"
    using low_bill_owner_result(2) [of ascii_tables] high_bill_owner_result(2) [of ascii_tables]
    by auto
  with agree cmp LeadRecord_examples(7,8) low_bill_owner_result(1) high_bill_owner_result(1)
  show ?thesis by blast
qed

text \<open>
  C8. A gate's reject reason is in the result only when the gate's switch is enabled and
  its field is not empty; and with both switches disabled, every LeadRecord that agrees
  with the given one outside the keys \<^verbatim>\<open>State\<close>, \<^verbatim>\<open>state\<close>, \<^verbatim>\<open>County\<close> and
  \<^verbatim>\<open>county\<close> gets the very same result.
\<close>

theorem geo_fields_irrelevant:
  assumes "LeadRecord l1"
  shows "\<exists>r s c. scoreLead U cfg l1 = Some r \<and> state_field U l1 = Some s \<and>
    county_field U l1 = Some c \<and>
    (''Outside California'' \<in> set (reject_reasons r) \<longrightarrow>
       truthy U (JString (REQUIRE_CA cfg)) = Some True \<and> s \<noteq> []) \<and>
    (''Outside Kern County'' \<in> set (reject_reasons r) \<longrightarrow>
       truthy U (JString (REQUIRE_KERN cfg)) = Some True \<and> c \<noteq> []) \<and>
    (\<forall>l2. truthy U (JString (REQUIRE_CA cfg)) = Some False \<and>
          truthy U (JString (REQUIRE_KERN cfg)) = Some False \<and> LeadRecord l2 \<and>
          (\<forall>k. k \<notin> {''State'', ''state'', ''County'', ''county''} \<longrightarrow> l1 k = l2 k) \<longrightarrow>
          scoreLead U cfg l2 = Some r)"
proof -
  obtain rj where rj: "geo_gates U cfg l1 = Some rj"
    using geo_gates_total [OF assms] by blast
  obtain s c where sc: "state_field U l1 = Some s" "county_field U l1 = Some c"
    and ca: "''Outside California'' \<in> set rj \<longrightarrow>
       truthy U (JString (REQUIRE_CA cfg)) = Some True \<and> s \<noteq> []"
    and kern: "''Outside Kern County'' \<in> set rj \<longrightarrow>
       truthy U (JString (REQUIRE_KERN cfg)) = Some True \<and> c \<noteq> []"
    using geo_gates_reasons [OF rj] by blast
  have same: "scoreLead U cfg l2 = scoreLead U cfg l1"
    if off: "truthy U (JString (REQUIRE_CA cfg)) = Some False"
      "truthy U (JString (REQUIRE_KERN cfg)) = Some False"
    and l2: "LeadRecord l2"
    and agree: "\<forall>k. k \<notin> {''State'', ''state'', ''County'', ''county''} \<longrightarrow> l1 k = l2 k" for l2
  proof -
    have p: "pick l1 ks = pick l2 ks"
      if "set ks \<inter> {''State'', ''state'', ''County'', ''county''} = {}" for ks
      using agree_pick [OF agree that] .
    obtain rj2 where "geo_gates U cfg l2 = Some rj2"
      using geo_gates_total [OF l2] by blast
    then have "geo_gates U cfg l2 = Some []"
      using geo_gates_off [OF off] by blast
    moreover have "geo_gates U cfg l1 = Some []"
      using geo_gates_off [OF off rj] rj by blast
    moreover have "ownership U l2 = ownership U l1" "bill_signal U l2 = bill_signal U l1"
      "roof_signal U l2 = roof_signal U l1" "sun_signal U l2 = sun_signal U l1"
      "hoa_signal U l2 = hoa_signal U l1" "trueup_signal U l2 = trueup_signal U l1"
      "ptype_signal U l2 = ptype_signal U l1"
      by (simp_all add: ownership_def bill_signal_def billRaw_def billNum_def roof_signal_def
          sun_signal_def hoa_signal_def trueup_signal_def ptype_signal_def p)
    ultimately show ?thesis
      by (intro scoreLead_same_gates) simp_all
  qed
  from assms show ?thesis
  proof (cases rule: scoreLead_cases [of l1 U cfg])
    case (geo rj')
    with rj sc ca kern same show ?thesis by auto
  next
    case (not_owner own)
    with rj sc same show ?thesis by auto
  next
    case (scored d1 r1 d2 r2 d3 r3 d4 r4 d5 r5 d6 r6)
    with rj sc same show ?thesis by auto
  qed
qed

theorem geo_fields_irrelevant_witness:
  "LeadRecord out_of_area_owner \<and> LeadRecord owner_only \<and>
   truthy ascii_tables (JString (REQUIRE_CA gates_off)) = Some False \<and>
   truthy ascii_tables (JString (REQUIRE_KERN gates_off)) = Some False \<and>
   (\<forall>k. (k = ''State'' \<or> k = ''state'' \<or> k = ''County'' \<or> k = ''county'') \<or>
        out_of_area_owner k = owner_only k) \<and>
   scoreLead ascii_tables gates_off out_of_area_owner = scoreLead ascii_tables gates_off owner_only \<and>
   map_option score (scoreLead ascii_tables gates_off out_of_area_owner) = Some 48 \<and>
   map_option reject_reasons (scoreLead ascii_tables gates_on out_of_area_owner) =
     Some [''Outside California'', ''Outside Kern County''] \<and>
   truthy ascii_tables (JString (REQUIRE_CA gates_on)) = Some True \<and>
   truthy ascii_tables (JString (REQUIRE_KERN gates_on)) = Some True \<and>
   state_field ascii_tables out_of_area_owner = Some ''NV'' \<and>
   county_field ascii_tables out_of_area_owner = Some ''los angeles''"
proof -
  have lr: "LeadRecord out_of_area_owner"
    by (simp add: LeadRecord_def out_of_area_owner_def)
  have agree: "\<forall>k. (k = ''State'' \<or> k = ''state'' \<or> k = ''County'' \<or> k = ''county'') \<or>
      out_of_area_owner k = owner_only k"
    by (simp add: out_of_area_owner_def owner_only_def)
  then have agree': "\<forall>k. k \<notin> {''State'', ''state'', ''County'', ''county''} \<longrightarrow>
      out_of_area_owner k = owner_only k"
    by blast
  have e0: "scoreLead ascii_tables gates_off owner_only = scoreLead ascii_tables gates_off out_of_area_owner"
    using geo_fields_irrelevant [OF lr, of ascii_tables gates_off] gates_examples(1,2)
      LeadRecord_examples(2) agree' by metis
  have eq: "scoreLead ascii_tables gates_off out_of_area_owner = scoreLead ascii_tables gates_off owner_only"
    "map_option score (scoreLead ascii_tables gates_off out_of_area_owner) = Some 48"
    by (simp_all add: e0 [symmetric] owner_only_result)
  have on: "map_option reject_reasons (scoreLead ascii_tables gates_on out_of_area_owner) =
     Some [''Outside California'', ''Outside Kern County'']"
    by (simp add: out_of_area_owner_result(1))
  from lr LeadRecord_examples(2) gates_examples agree eq on out_of_area_owner_result(2,3)
  show ?thesis by blast
qed

text \<open>
  C9. On every LeadRecord, under every GateConfig, the scorer returns (it does not
  throw), and the result is well formed: a score from 0 to 100, one of the four tiers,
  one of the three temperatures, eligibility exactly in the top tier. The empty record is
  a LeadRecord; its ownership is \<^verbatim>\<open>unknown\<close> and its result the disqualified one with the
  reject reason \<^verbatim>\<open>"Not homeowner"\<close>.
\<close>

theorem scoreLead_total:
  assumes "LeadRecord lead"
  shows "(\<exists>r. scoreLead U cfg lead = Some r \<and> 0 \<le> score r \<and> score r \<le> 100 \<and>
      tier r \<in> set [''Disqualified'', ''Qualified '' @ en_dash @ '' Send to Marshall'',
        ''Warm '' @ en_dash @ '' Review Later'', ''Educational Only''] \<and>
      lead_temperature r \<in> set [''Hot'', ''Warm'', ''Cold''] \<and>
      marshall_eligible r = (tier r = ''Qualified '' @ en_dash @ '' Send to Marshall'')) \<and>
    LeadRecord Map.empty \<and> ownership U Map.empty = Some ''unknown'' \<and>
    scoreLead U cfg Map.empty =
      Some \<lparr>score = 0, tier = ''Disqualified'', lead_temperature = ''Cold'',
            reject_reasons = [''Not homeowner''], score_reasons = ''Not homeowner'',
            marshall_eligible = False\<rparr>"
proof -
  have wf: "\<exists>r. scoreLead U cfg lead = Some r \<and> 0 \<le> score r \<and> score r \<le> 100 \<and>
      tier r \<in> set [''Disqualified'', ''Qualified '' @ en_dash @ '' Send to Marshall'',
        ''Warm '' @ en_dash @ '' Review Later'', ''Educational Only''] \<and>
      lead_temperature r \<in> set [''Hot'', ''Warm'', ''Cold''] \<and>
      marshall_eligible r = (tier r = ''Qualified '' @ en_dash @ '' Send to Marshall'')"
    using assms
  proof (cases rule: scoreLead_cases [of lead U cfg])
    case (geo rj)
    then show ?thesis by (simp add: en_dash_def)
  next
    case (not_owner own)
    then show ?thesis by (simp add: en_dash_def)
  next
    case (scored d1 r1 d2 r2 d3 r3 d4 r4 d5 r5 d6 r6)
    then show ?thesis
      using tiering_labels [of "clamp (50 + d1 + d2 + d3 + d4 + d5 + d6) 0 100"]
        tiering_eligible [of "clamp (50 + d1 + d2 + d3 + d4 + d5 + d6) 0 100"]
      by (simp add: clamp_range)
  qed
  have "state_field U Map.empty = Some []" "county_field U Map.empty = Some []"
    by (simp_all add: state_field_def county_field_def helper_eval text_eval)
  then have "geo_gates U cfg Map.empty = Some []"
    using truthy_JString [of U "REQUIRE_CA cfg"] truthy_JString [of U "REQUIRE_KERN cfg"]
    by (auto simp: geo_gates_def)
  then have "scoreLead U cfg Map.empty =
      Some \<lparr>score = 0, tier = ''Disqualified'', lead_temperature = ''Cold'',
            reject_reasons = [''Not homeowner''], score_reasons = ''Not homeowner'',
            marshall_eligible = False\<rparr>"
    by (simp add: scoreLead_def empty_lead_result)
  with wf LeadRecord_examples(1) empty_lead_result show ?thesis by blast
qed

theorem scoreLead_total_witness:
  "LeadRecord scenario_B \<and>
   (\<exists>r. scoreLead ascii_tables gates_off scenario_B = Some r \<and> score r = 98 \<and>
      tier r = ''Qualified '' @ en_dash @ '' Send to Marshall'' \<and>
      lead_temperature r = ''Hot'' \<and> marshall_eligible r) \<and>
   map_option reject_reasons (scoreLead ascii_tables gates_on Map.empty) = Some [''Not homeowner'']"
  using scoreLead_total [OF LeadRecord_examples(4), of ascii_tables gates_off]
    scoreLead_total [OF LeadRecord_examples(4), of ascii_tables gates_on]
    LeadRecord_examples(4) scenario_B_result
  by simp

end
